theory Spec2Isabelle
  imports Main "HOL-Library.Sublist" "HOL-Library.AList"
begin

section \<open>Python strings\<close>

text \<open>
  A Python \<open>str\<close> is a sequence of Unicode code points, so a string is a list of
  natural numbers and \<open>length\<close> counts what Python's \<open>len\<close> counts. \<open>py\<close> writes an
  ASCII literal as such a list.
\<close>

type_synonym pystr = "nat list"

definition py :: "string \<Rightarrow> pystr" where
  "py s = map of_char s"

abbreviation LBRACE :: nat where "LBRACE \<equiv> 123"
abbreviation RBRACE :: nat where "RBRACE \<equiv> 125"
abbreviation LBRACKET :: nat where "LBRACKET \<equiv> 91"
abbreviation RBRACKET :: nat where "RBRACKET \<equiv> 93"
abbreviation QUOTE :: nat where "QUOTE \<equiv> 34"
abbreviation BACKSLASH :: nat where "BACKSLASH \<equiv> 92"
abbreviation COMMA :: nat where "COMMA \<equiv> 44"
abbreviation COLON :: nat where "COLON \<equiv> 58"
abbreviation BACKTICK :: nat where "BACKTICK \<equiv> 96"

text \<open>
  \<open>str.strip()\<close> and the pattern \<open>\s\<close> of \<open>re\<close> on a \<open>str\<close> use the same set of
  Unicode whitespace: U+0009..U+000D, U+001C..U+0020, U+0085, U+00A0, U+1680,
  U+2000..U+200A, U+2028, U+2029, U+202F, U+205F and U+3000.
\<close>

definition isspace :: "nat \<Rightarrow> bool" where
  "isspace c =
     ((9 \<le> c \<and> c \<le> 13) \<or> (28 \<le> c \<and> c \<le> 32) \<or> c = 133 \<or> c = 160 \<or> c = 5760 \<or>
      (8192 \<le> c \<and> c \<le> 8202) \<or> c = 8232 \<or> c = 8233 \<or> c = 8239 \<or> c = 8287 \<or>
      c = 12288)"

definition strip :: "pystr \<Rightarrow> pystr" where
  "strip s = rev (dropWhile isspace (rev (dropWhile isspace s)))"

section \<open>The regular expressions of \<open>parse_json\<close>\<close>

text \<open>
  \<open>re.sub(lit + r'\s*', '', s)\<close> for a literal \<open>lit\<close>: scanning from the left, every
  occurrence of the literal is deleted together with the whole run of whitespace after
  it, and the scan goes on behind the deleted text.
\<close>

function re_sub_del :: "pystr \<Rightarrow> pystr \<Rightarrow> pystr" where
  "re_sub_del lit [] = []"
| "re_sub_del lit (c # cs) =
     (if lit \<noteq> [] \<and> prefix lit (c # cs)
      then re_sub_del lit (dropWhile isspace (drop (length lit) (c # cs)))
      else c # re_sub_del lit cs)"
  by pat_completeness auto
termination
proof (relation "measure (\<lambda>(lit, s). length s)")
  show "wf (measure (\<lambda>(lit, s). length s))" by simp
next
  fix lit :: pystr and c :: nat and cs :: pystr
  assume a: "lit \<noteq> [] \<and> prefix lit (c # cs)"
  have "length (dropWhile isspace (drop (length lit) (c # cs)))
          \<le> length (drop (length lit) (c # cs))"
    by (rule length_dropWhile_le)
  moreover have "length (drop (length lit) (c # cs)) < length (c # cs)"
    using a by (cases lit) auto
  ultimately show "((lit, dropWhile isspace (drop (length lit) (c # cs))), (lit, c # cs))
      \<in> measure (\<lambda>(lit, s). length s)"
    by simp
next
  fix lit :: pystr and c :: nat and cs :: pystr
  show "((lit, cs), (lit, c # cs)) \<in> measure (\<lambda>(lit, s). length s)"
    by simp
qed

definition FENCE_JSON :: pystr where
  "FENCE_JSON = [BACKTICK, BACKTICK, BACKTICK] @ py ''json''"

definition FENCE :: pystr where
  "FENCE = [BACKTICK, BACKTICK, BACKTICK]"

text \<open>
  \<open>re.search(r'\{.*\}', text, re.DOTALL)\<close>: the match starts at the leftmost opening
  brace and, the star being greedy and the dot matching every character, ends at the
  last closing brace behind it; there is no match when either is missing. The result
  is \<open>m.group()\<close>.
\<close>

definition search_braces :: "pystr \<Rightarrow> pystr option" where
  "search_braces text =
     (case dropWhile (\<lambda>c. c \<noteq> LBRACE) text of
        [] \<Rightarrow> None
      | b # rest \<Rightarrow>
          if RBRACE \<in> set rest
          then Some (b # rev (dropWhile (\<lambda>c. c \<noteq> RBRACE) (rev rest)))
          else None)"

text \<open>
  \<open>next((i for i, c in enumerate(text) if c in '{['), 0)\<close>: the index of the first
  opening brace or bracket, and 0 when there is none.
\<close>

definition start_index :: "pystr \<Rightarrow> nat" where
  "start_index text =
     (if list_ex (\<lambda>c. c = LBRACE \<or> c = LBRACKET) text
      then length (takeWhile (\<lambda>c. \<not> (c = LBRACE \<or> c = LBRACKET)) text)
      else 0)"

section \<open>The JSON decoder\<close>

text \<open>
  The values \<open>json.loads\<close> returns. An integer literal becomes a Python \<open>int\<close>. A literal
  with a fraction or an exponent, and the constants \<open>NaN\<close>, \<open>Infinity\<close> and
  \<open>-Infinity\<close>, become a \<open>float\<close>: the value keeps the text that \<open>float()\<close> receives, of
  which the float is a function. A \<open>dict\<close> is the list of its items in insertion order.
\<close>

datatype json =
    JNull
  | JBool bool
  | JInt int
  | JFloat pystr
  | JStr pystr
  | JArr "json list"
  | JObj "(pystr \<times> json) list"

datatype error =
    JSONDecodeError
  | AttributeError
  | APIError
  | HTTPException nat "pystr option"

text \<open>\<open>dict(pairs)\<close>: a later value for a key replaces the earlier one in place.\<close>

definition dict :: "(pystr \<times> json) list \<Rightarrow> (pystr \<times> json) list" where
  "dict pairs = foldl (\<lambda>d (k, v). AList.update k v d) [] pairs"

definition is_ws :: "nat \<Rightarrow> bool" where
  "is_ws c = (c = 32 \<or> c = 9 \<or> c = 10 \<or> c = 13)"

definition skip_ws :: "pystr \<Rightarrow> pystr" where
  "skip_ws s = dropWhile is_ws s"

definition is_digit :: "nat \<Rightarrow> bool" where
  "is_digit c = (48 \<le> c \<and> c \<le> 57)"

definition hexval :: "nat \<Rightarrow> nat option" where
  "hexval c =
     (if 48 \<le> c \<and> c \<le> 57 then Some (c - 48)
      else if 97 \<le> c \<and> c \<le> 102 then Some (c - 87)
      else if 65 \<le> c \<and> c \<le> 70 then Some (c - 55)
      else None)"

text \<open>\<open>_decode_uXXXX\<close>, on the text behind the \<open>u\<close>: four hexadecimal digits.\<close>

definition decode_uXXXX :: "pystr \<Rightarrow> (nat \<times> pystr) option" where
  "decode_uXXXX s =
     (case s of
        a # b # c # d # r \<Rightarrow>
          (case (hexval a, hexval b, hexval c, hexval d) of
             (Some w, Some x, Some y, Some z) \<Rightarrow> Some (((w * 16 + x) * 16 + y) * 16 + z, r)
           | _ \<Rightarrow> None)
      | _ \<Rightarrow> None)"

text \<open>The table \<open>BACKSLASH\<close> of the decoder: the one-letter escapes.\<close>

definition backslash :: "nat \<Rightarrow> nat option" where
  "backslash e =
     (if e = QUOTE then Some QUOTE
      else if e = BACKSLASH then Some BACKSLASH
      else if e = 47 then Some 47
      else if e = 98 then Some 8
      else if e = 102 then Some 12
      else if e = 110 then Some 10
      else if e = 114 then Some 13
      else if e = 116 then Some 9
      else None)"

lemma decode_uXXXX_length:
  "decode_uXXXX s = Some (u, r) \<Longrightarrow> length r < length s"
  by (auto simp: decode_uXXXX_def split: list.splits option.splits)

text \<open>
  \<open>scanstring\<close> in strict mode, on the text behind the opening quote: the decoded
  string and the text behind the closing quote. \<open>None\<close> is the decoder's
  \<open>JSONDecodeError\<close>: an unterminated string, a control character, a bad escape.
\<close>

function scanstring :: "pystr \<Rightarrow> pystr \<Rightarrow> (pystr \<times> pystr) option" where
  "scanstring acc s =
     (case s of
        [] \<Rightarrow> None
      | c # cs \<Rightarrow>
          if c = QUOTE then Some (acc, cs)
          else if c = BACKSLASH then
            (case cs of
               [] \<Rightarrow> None
             | esc # es \<Rightarrow>
                 if esc \<noteq> 117 then
                   (case backslash esc of
                      None \<Rightarrow> None
                    | Some ch \<Rightarrow> scanstring (acc @ [ch]) es)
                 else
                   (case decode_uXXXX es of
                      None \<Rightarrow> None
                    | Some (uni, r) \<Rightarrow>
                        if 0xD800 \<le> uni \<and> uni \<le> 0xDBFF \<and> prefix [BACKSLASH, 117] r then
                          (case decode_uXXXX (drop 2 r) of
                             None \<Rightarrow> None
                           | Some (uni2, r2) \<Rightarrow>
                               if 0xDC00 \<le> uni2 \<and> uni2 \<le> 0xDFFF
                               then scanstring
                                      (acc @ [0x10000 + (uni - 0xD800) * 1024 + (uni2 - 0xDC00)]) r2
                               else scanstring (acc @ [uni]) r)
                        else scanstring (acc @ [uni]) r))
          else if c < 32 then None
          else scanstring (acc @ [c]) cs)"
  by pat_completeness auto
termination
proof (relation "measure (\<lambda>(acc, s). length s)", goal_cases)
  case 1
  show ?case by simp
next
  case (2 acc s c cs esc es ch)
  then show ?case by simp
next
  case (3 acc s c cs esc es x uni r x2 uni2 r2)
  then show ?case
    using decode_uXXXX_length [of es uni r] decode_uXXXX_length [of "drop 2 r" uni2 r2]
    by simp
next
  case (4 acc s c cs esc es x uni r x2 uni2 r2)
  then show ?case
    using decode_uXXXX_length [of es uni r] by simp
next
  case (5 acc s c cs esc es x uni r)
  then show ?case
    using decode_uXXXX_length [of es uni r] by simp
next
  case (6 acc s c cs)
  then show ?case by simp
qed

declare scanstring.simps [simp del]

text \<open>
  A number is \<open>-?(0|[1-9][0-9]*)(\.[0-9]+)?([eE][-+]?[0-9]+)?\<close> at the start of the
  text, with the digits \<open>0\<close> to \<open>9\<close> of the accelerated scanner that CPython runs. The
  fraction and the exponent are taken only when a digit follows.
\<close>

definition scan_frac :: "pystr \<Rightarrow> pystr \<times> pystr" where
  "scan_frac s =
     (case s of
        p # f # fs \<Rightarrow>
          if p = 46 \<and> is_digit f
          then (p # takeWhile is_digit (f # fs), dropWhile is_digit (f # fs))
          else ([], s)
      | _ \<Rightarrow> ([], s))"

definition scan_exp :: "pystr \<Rightarrow> pystr \<times> pystr" where
  "scan_exp s =
     (case s of
        [] \<Rightarrow> ([], s)
      | e # r \<Rightarrow>
          if e = 101 \<or> e = 69 then
            (let sg = (case r of [] \<Rightarrow> [] | g # _ \<Rightarrow> if g = 43 \<or> g = 45 then [g] else []);
                 ds = drop (length sg) r
             in case ds of
                  [] \<Rightarrow> ([], s)
                | d # _ \<Rightarrow>
                    if is_digit d
                    then (e # sg @ takeWhile is_digit ds, dropWhile is_digit ds)
                    else ([], s))
          else ([], s))"

definition int_of_digits :: "pystr \<Rightarrow> nat" where
  "int_of_digits ds = foldl (\<lambda>a d. a * 10 + (d - 48)) 0 ds"

definition match_number :: "pystr \<Rightarrow> (json \<times> pystr) option" where
  "match_number s =
     (let sign = (case s of [] \<Rightarrow> [] | c # _ \<Rightarrow> if c = 45 then [c] else []) in
      case drop (length sign) s of
        [] \<Rightarrow> None
      | d # ds \<Rightarrow>
          if \<not> is_digit d then None
          else
            let integer = (if d = 48 then [d] else d # takeWhile is_digit ds);
                r1 = (if d = 48 then ds else dropWhile is_digit ds);
                (frac, r2) = scan_frac r1;
                (exp, r3) = scan_exp r2
            in if frac = [] \<and> exp = []
               then Some (JInt (if sign = [] then int (int_of_digits integer)
                                else - int (int_of_digits integer)), r3)
               else Some (JFloat (sign @ integer @ frac @ exp), r3))"

text \<open>
  The branches of \<open>_scan_once\<close> that read a value without nesting: a string, \<open>null\<close>,
  \<open>true\<close>, \<open>false\<close>, a number, and the three float constants. \<open>None\<close> is the
  \<open>StopIteration\<close> that every caller turns into a \<open>JSONDecodeError\<close>.
\<close>

definition scan_scalar :: "pystr \<Rightarrow> (json \<times> pystr) option" where
  "scan_scalar s =
     (case s of
        [] \<Rightarrow> None
      | c # cs \<Rightarrow>
          if c = QUOTE then
            (case scanstring [] cs of None \<Rightarrow> None | Some (str, r) \<Rightarrow> Some (JStr str, r))
          else if prefix (py ''null'') s then Some (JNull, drop 4 s)
          else if prefix (py ''true'') s then Some (JBool True, drop 4 s)
          else if prefix (py ''false'') s then Some (JBool False, drop 5 s)
          else
            (case match_number s of
               Some res \<Rightarrow> Some res
             | None \<Rightarrow>
                 if prefix (py ''NaN'') s then Some (JFloat (py ''NaN''), drop 3 s)
                 else if prefix (py ''Infinity'') s then Some (JFloat (py ''Infinity''), drop 8 s)
                 else if prefix (py ''-Infinity'') s then Some (JFloat (py ''-Infinity''), drop 9 s)
                 else None))"

lemma py_Nil [simp]: "py [] = []"
  by (simp add: py_def)

lemma py_Cons [simp]: "py (c # cs) = of_char c # py cs"
  by (simp add: py_def)

lemma scanstring_length:
  "scanstring acc s = Some (str, r) \<Longrightarrow> length r < length s"
proof (induction s arbitrary: acc rule: measure_induct_rule [where f = length])
  case (less s)
  have step: "\<And>acc' s'. scanstring acc' s' = Some (str, r) \<Longrightarrow> length s' < length s
      \<Longrightarrow> length r < length s'"
    using less.IH by fastforce
  from less.prems show ?case
    apply (subst (asm) scanstring.simps)
    apply (auto split: list.splits if_splits option.splits prod.splits
        dest!: decode_uXXXX_length dest: step)
    done
qed

lemma le_dropWhile_trans:
  "length r \<le> length (dropWhile P xs) \<Longrightarrow> length r \<le> length xs"
  using length_dropWhile_le [of P xs] by simp

lemma scan_frac_length: "scan_frac s = (f, r) \<Longrightarrow> length r \<le> length s"
  by (auto simp: scan_frac_def split: list.splits if_splits
      intro: le_trans [OF length_dropWhile_le])

lemma scan_exp_length: "scan_exp s = (e, r) \<Longrightarrow> length r \<le> length s"
  by (auto simp: scan_exp_def Let_def split: list.splits if_splits
      intro: le_trans [OF length_dropWhile_le])

lemma match_number_length:
  "match_number s = Some (v, r) \<Longrightarrow> length r < length s"
  by (auto simp: match_number_def Let_def split: list.splits if_splits prod.splits
      dest!: scan_frac_length scan_exp_length dest: le_dropWhile_trans)

lemma scan_scalar_length:
  "scan_scalar s = Some (v, r) \<Longrightarrow> length r < length s"
  by (auto simp: scan_scalar_def split: list.splits if_splits option.splits
      dest: scanstring_length match_number_length)

lemma skip_ws_length: "length (skip_ws s) \<le> length s"
  by (simp add: skip_ws_def length_dropWhile_le)

lemma skip_ws_Cons_length: "skip_ws s = c # r \<Longrightarrow> length r < length s"
  using skip_ws_length [of s] by simp

text \<open>
  \<open>_scan_once\<close> with \<open>JSONObject\<close> and \<open>JSONArray\<close>. The Python functions call each other
  recursively and come back to the loop of the enclosing object or array; here the
  enclosing containers are an explicit list of frames, the innermost first, so that
  every step goes forward in the text. \<open>scan_value\<close> reads the value that starts at the
  head of the text, \<open>scan_key\<close> reads a member from behind the opening quote of its key,
  and \<open>scan_next\<close> goes on behind a finished value: with no frame left the value and the
  rest of the text are the result of \<open>raw_decode\<close>.
\<close>

datatype frame =
    InArray "json list"
  | InObject "(pystr \<times> json) list" pystr

function scan_value :: "frame list \<Rightarrow> pystr \<Rightarrow> (json \<times> pystr) option"
  and scan_key :: "frame list \<Rightarrow> (pystr \<times> json) list \<Rightarrow> pystr \<Rightarrow> (json \<times> pystr) option"
  and scan_next :: "frame list \<Rightarrow> json \<Rightarrow> pystr \<Rightarrow> (json \<times> pystr) option"
where
  "scan_value st s =
     (case s of
        [] \<Rightarrow> None
      | c # cs \<Rightarrow>
          if c = LBRACE then
            (case skip_ws cs of
               [] \<Rightarrow> None
             | d # r \<Rightarrow>
                 if d = RBRACE then scan_next st (JObj []) r
                 else if d = QUOTE then scan_key st [] r
                 else None)
          else if c = LBRACKET then
            (case skip_ws cs of
               [] \<Rightarrow> None
             | d # r \<Rightarrow>
                 if d = RBRACKET then scan_next st (JArr []) r
                 else scan_value (InArray [] # st) (d # r))
          else
            (case scan_scalar s of
               None \<Rightarrow> None
             | Some (v, r) \<Rightarrow> scan_next st v r))"
| "scan_key st pairs s =
     (case scanstring [] s of
        None \<Rightarrow> None
      | Some (key, r) \<Rightarrow>
          (case skip_ws r of
             [] \<Rightarrow> None
           | c # r' \<Rightarrow>
               if c = COLON then scan_value (InObject pairs key # st) (skip_ws r')
               else None))"
| "scan_next st v s =
     (case st of
        [] \<Rightarrow> Some (v, s)
      | InArray vs # st' \<Rightarrow>
          (case skip_ws s of
             [] \<Rightarrow> None
           | c # r \<Rightarrow>
               if c = RBRACKET then scan_next st' (JArr (vs @ [v])) r
               else if c = COMMA then scan_value (InArray (vs @ [v]) # st') (skip_ws r)
               else None)
      | InObject pairs key # st' \<Rightarrow>
          (case skip_ws s of
             [] \<Rightarrow> None
           | c # r \<Rightarrow>
               if c = RBRACE then scan_next st' (JObj (dict (pairs @ [(key, v)]))) r
               else if c = COMMA then
                 (case skip_ws r of
                    [] \<Rightarrow> None
                  | q # r' \<Rightarrow>
                      if q = QUOTE then scan_key st' (pairs @ [(key, v)]) r'
                      else None)
               else None))"
  by pat_completeness auto
termination
  apply (relation "measure (\<lambda>x. case x of
            Inl (st, s) \<Rightarrow> length s
          | Inr (Inl (st, pairs, s)) \<Rightarrow> length s
          | Inr (Inr (st, v, s)) \<Rightarrow> length s)")
  apply (auto dest!: skip_ws_Cons_length scan_scalar_length scanstring_length
      intro: le_less_trans [OF skip_ws_length])
  done

declare scan_value.simps [simp del] scan_key.simps [simp del] scan_next.simps [simp del]

text \<open>
  \<open>json.loads\<close> on a \<open>str\<close>: a leading byte order mark is refused; the document is one
  value between optional whitespace, and anything behind it is "Extra data".
\<close>

definition json_loads :: "pystr \<Rightarrow> error + json" where
  "json_loads s =
     (if prefix [0xFEFF] s then Inl JSONDecodeError
      else
        (case scan_value [] (skip_ws s) of
           None \<Rightarrow> Inl JSONDecodeError
         | Some (obj, r) \<Rightarrow> if skip_ws r = [] then Inr obj else Inl JSONDecodeError))"

section \<open>The Text Recovery Parser\<close>

text \<open>
  \<^verbatim>\<open>
  def parse_json(text: str) -> dict:
      text = re.sub(r'[fence]json\s*', '', text.strip())
      text = re.sub(r'[fence]\s*', '', text).strip()
      start = next((i for i, c in enumerate(text) if c in '{['), 0)
      try:
          return json.loads(text[start:])
      except Exception:
          m = re.search(r'\{.*\}', text, re.DOTALL)
          return json.loads(m.group()) if m else {}
  \<close>
  where \<open>[fence]\<close> stands for three backticks. \<open>Inl\<close> is an exception that leaves the
  function, \<open>Inr\<close> the value it returns. The second \<open>json.loads\<close> stands in the handler,
  outside the \<open>try\<close>: its exception is not caught.
\<close>

definition parse_json :: "pystr \<Rightarrow> error + json" where
  "parse_json text0 =
     (let text1 = re_sub_del FENCE_JSON (strip text0);
          text = strip (re_sub_del FENCE text1);
          start = start_index text
      in case json_loads (drop start text) of
           Inr v \<Rightarrow> Inr v
         | Inl e \<Rightarrow>
             (case search_braces text of
                Some grp \<Rightarrow> json_loads grp
              | None \<Rightarrow> Inr (JObj [])))"

text \<open>
  The text that reaches the decoders: the first two lines of \<open>parse_json\<close>.
\<close>

definition fence_stripped :: "pystr \<Rightarrow> pystr" where
  "fence_stripped text0 = strip (re_sub_del FENCE (re_sub_del FENCE_JSON (strip text0)))"

text \<open>
  The rest of \<open>parse_json\<close>, on that text: the direct decode from the first brace or
  bracket and, in the handler, the greedy brace span.
\<close>

definition decode_stages :: "pystr \<Rightarrow> error + json" where
  "decode_stages text =
     (case json_loads (drop (start_index text) text) of
        Inr v \<Rightarrow> Inr v
      | Inl e \<Rightarrow>
          (case search_braces text of
             Some grp \<Rightarrow> json_loads grp
           | None \<Rightarrow> Inr (JObj [])))"

text \<open>A value that is neither a list nor a \<open>dict\<close>.\<close>

definition is_scalar :: "json \<Rightarrow> bool" where
  "is_scalar v = (case v of JArr xs \<Rightarrow> False | JObj items \<Rightarrow> False | _ \<Rightarrow> True)"


section \<open>The Plan Orchestrator\<close>

text \<open>
  One call of \<open>client.messages.create\<close>: the model name, the token limit, the system
  prompt and the content of the single user message. The two system prompts are fixed
  module constants; a request records which of them it carries.
\<close>

datatype system_prompt = INTENT_SYS | PLAN_SYS

record request =
  model :: pystr
  max_tokens :: nat
  system :: system_prompt
  content :: pystr

text \<open>
  \<open>intent.get(key, default)\<close> on a \<open>dict\<close>; on a value that is no \<open>dict\<close> the attribute
  lookup raises.
\<close>

definition dict_get :: "json \<Rightarrow> pystr \<Rightarrow> json \<Rightarrow> error + json" where
  "dict_get d key dflt =
     (case d of
        JObj items \<Rightarrow> (case map_of items key of None \<Rightarrow> Inr dflt | Some v \<Rightarrow> Inr v)
      | _ \<Rightarrow> Inl AttributeError)"

function digits :: "nat \<Rightarrow> pystr" where
  "digits n = (if n < 10 then [48 + n] else digits (n div 10) @ [48 + n mod 10])"
  by pat_completeness auto
termination
  by (relation "measure (\<lambda>n. n)") auto

declare digits.simps [simp del]

definition str_int :: "int \<Rightarrow> pystr" where
  "str_int i = (if i < 0 then 45 # digits (nat (- i)) else digits (nat i))"

text \<open>
  A replacement field of an f-string is \<open>format(v, '')\<close>, that is \<open>str(v)\<close>: a string
  stands for itself, an \<open>int\<close> in decimal, \<open>None\<close>, \<open>True\<close> and \<open>False\<close> by their names.
  For a \<open>float\<close>, a list and a \<open>dict\<close> it is Python's \<open>repr\<close>, a parameter here, as is
  \<open>json.dumps\<close>.
\<close>

definition format_value :: "(json \<Rightarrow> pystr) \<Rightarrow> json \<Rightarrow> pystr" where
  "format_value repr v =
     (case v of
        JStr s \<Rightarrow> s
      | JInt i \<Rightarrow> str_int i
      | JNull \<Rightarrow> py ''None''
      | JBool b \<Rightarrow> (if b then py ''True'' else py ''False'')
      | _ \<Rightarrow> repr v)"

text \<open>
  The content of the second call:
  \<^verbatim>\<open>
  f'User: "{req.message}"\nIntent: {json.dumps(intent)}\n'
  f'Generate ALL {intent.get("duration_days",3)} days. Budget: {intent.get("total_budget",15000)} INR. '
  f'Destination: {intent.get("destination","destination")}. Use real attraction names.'
  \<close>
\<close>

definition plan_prompt :: "(json \<Rightarrow> pystr) \<Rightarrow> (json \<Rightarrow> pystr) \<Rightarrow> pystr \<Rightarrow> json \<Rightarrow> error + pystr" where
  \<open>plan_prompt dumps repr message intent =
     (case dict_get intent (py ''duration_days'') (JInt 3) of
        Inl e \<Rightarrow> Inl e
      | Inr days \<Rightarrow>
          (case dict_get intent (py ''total_budget'') (JInt 15000) of
             Inl e \<Rightarrow> Inl e
           | Inr budget \<Rightarrow>
               (case dict_get intent (py ''destination'') (JStr (py ''destination'')) of
                  Inl e \<Rightarrow> Inl e
                | Inr dest \<Rightarrow>
                    Inr (py ''User: "'' @ message @ py ''"\<newline>Intent: '' @ dumps intent
                         @ py ''\<newline>Generate ALL '' @ format_value repr days
                         @ py '' days. Budget: '' @ format_value repr budget
                         @ py '' INR. Destination: '' @ format_value repr dest
                         @ py ''. Use real attraction names.''))))\<close>

definition MODEL :: pystr where
  "MODEL = py ''claude-sonnet-4-20250514''"

text \<open>
  \<open>plan\<close>, the handler of \<open>POST /api/plan\<close>. \<open>environ\<close> is \<open>os.environ\<close>. The service is
  a function \<open>llm\<close> from the calls already made and the present call to the text of the
  reply (\<open>content[0].text\<close>) or an exception: any two replies are such a function. The
  handler returns its result, or the exception that leaves it, together with the calls
  it has sent, in order.
\<close>

definition plan ::
  "(json \<Rightarrow> pystr) \<Rightarrow> (json \<Rightarrow> pystr) \<Rightarrow> (pystr \<rightharpoonup> pystr) \<Rightarrow>
   (request list \<Rightarrow> request \<Rightarrow> error + pystr) \<Rightarrow> pystr \<Rightarrow>
   (error + json \<times> json) \<times> request list" where
  "plan dumps repr environ llm message =
     (let key = (case environ (py ''ANTHROPIC_API_KEY'') of None \<Rightarrow> [] | Some k \<Rightarrow> k) in
      if key = [] then
        (Inl (HTTPException 500 (Some (py ''ANTHROPIC_API_KEY environment variable not set''))),
         [])
      else
        let intent_req = \<lparr>model = MODEL, max_tokens = 400, system = INTENT_SYS,
                          content = message\<rparr>
        in case llm [] intent_req of
             Inl e \<Rightarrow> (Inl e, [intent_req])
           | Inr intent_text \<Rightarrow>
               (case parse_json intent_text of
                  Inl e \<Rightarrow> (Inl e, [intent_req])
                | Inr intent \<Rightarrow>
                    (case plan_prompt dumps repr message intent of
                       Inl e \<Rightarrow> (Inl e, [intent_req])
                     | Inr prompt \<Rightarrow>
                         let plan_req = \<lparr>model = MODEL, max_tokens = 4000, system = PLAN_SYS,
                                         content = prompt\<rparr>
                         in case llm [intent_req] plan_req of
                              Inl e \<Rightarrow> (Inl e, [intent_req, plan_req])
                            | Inr plan_text \<Rightarrow>
                                (case parse_json plan_text of
                                   Inl e \<Rightarrow> (Inl e, [intent_req, plan_req])
                                 | Inr plan_data \<Rightarrow>
                                     (Inr (intent, plan_data), [intent_req, plan_req])))))"

section \<open>The catch-all route\<close>

text \<open>
  \<^verbatim>\<open>
  @app.get("/", response_class=HTMLResponse)
  @app.get("/{path:path}", response_class=HTMLResponse)
  async def serve(path: str = ""):
      if path.startswith("api/"):
          raise HTTPException(404)
      return HTMLResponse(HTML)
  \<close>
  The path parameter is the request path behind its leading slash. \<open>HTML\<close> is the
  embedded page, a module constant; \<open>HTMLResponse\<close> has status 200 unless told otherwise.
\<close>

datatype page = HTML

datatype response = HTMLResponse nat page

definition serve :: "pystr \<Rightarrow> error + response" where
  "serve path =
     (if prefix (py ''api/'') path then Inl (HTTPException 404 None)
      else Inr (HTMLResponse 200 HTML))"

section \<open>The state that \<open>parse_json\<close> runs in\<close>

text \<open>
  \<open>parse_json\<close> names no global and no attribute: the one piece of state its body
  touches is the table of compiled patterns of the \<open>re\<close> module, through \<open>re.sub\<close> and
  \<open>re.search\<close>. The three patterns of the function are its keys (flags included:
  \<open>re.DOTALL\<close> for the brace span).
\<close>

datatype regex = FENCE_JSON_RE | FENCE_RE | BRACES_RE

text \<open>
  A compiled pattern object: \<open>_compiler.compile\<close> of a key gives \<open>Pattern\<close> of that key.
  The table holds objects, so an entry can in principle hold any of them.
\<close>

datatype pattern = Pattern regex

text \<open>The leftmost match of a literal followed by \<open>\s*\<close>: \<open>p.search(s).group()\<close>.\<close>

fun search_literal :: "pystr \<Rightarrow> pystr \<Rightarrow> pystr option" where
  "search_literal lit [] = None"
| "search_literal lit (c # cs) =
     (if lit \<noteq> [] \<and> prefix lit (c # cs)
      then Some (lit @ takeWhile isspace (drop (length lit) (c # cs)))
      else search_literal lit cs)"

text \<open>
  \<open>p.sub('', s)\<close> and \<open>p.search(s)\<close> of a compiled pattern (the group of the match, \<open>None\<close>
  for no match). The greedy brace span ends at the last closing brace, so no second
  match follows its deletion.
\<close>

definition pattern_sub :: "pattern \<Rightarrow> pystr \<Rightarrow> pystr" where
  "pattern_sub p s =
     (case p of
        Pattern FENCE_JSON_RE \<Rightarrow> re_sub_del FENCE_JSON s
      | Pattern FENCE_RE \<Rightarrow> re_sub_del FENCE s
      | Pattern BRACES_RE \<Rightarrow>
          (case search_braces s of
             None \<Rightarrow> s
           | Some grp \<Rightarrow>
               takeWhile (\<lambda>c. c \<noteq> LBRACE) s
               @ drop (length (takeWhile (\<lambda>c. c \<noteq> LBRACE) s) + length grp) s))"

definition pattern_search :: "pattern \<Rightarrow> pystr \<Rightarrow> pystr option" where
  "pattern_search p s =
     (case p of
        Pattern FENCE_JSON_RE \<Rightarrow> search_literal FENCE_JSON s
      | Pattern FENCE_RE \<Rightarrow> search_literal FENCE s
      | Pattern BRACES_RE \<Rightarrow> search_braces s)"

text \<open>
  The two tables of \<open>re\<close>, dictionaries in insertion order: \<open>_cache\<close>, least recently used
  first, of at most 512 entries, and \<open>_cache2\<close>, oldest first, of at most 256.
\<close>

record interp =
  re_cache :: "(regex \<times> pattern) list"
  re_cache2 :: "(regex \<times> pattern) list"

text \<open>
  \<open>re._compile\<close>: an entry of \<open>_cache2\<close> is returned as it is. Otherwise the entry of
  \<open>_cache\<close> is taken out, or the pattern is compiled and, the table being full, its first
  entry dropped; the object goes to the end of \<open>_cache\<close> and, after the oldest entry of a
  full \<open>_cache2\<close> is dropped, to the end of \<open>_cache2\<close>.
\<close>

definition re_compile :: "regex \<Rightarrow> interp \<Rightarrow> pattern \<times> interp" where
  "re_compile key w =
     (case map_of (re_cache2 w) key of
        Some p \<Rightarrow> (p, w)
      | None \<Rightarrow>
          let (p, c) =
                (case map_of (re_cache w) key of
                   Some q \<Rightarrow> (q, filter (\<lambda>e. fst e \<noteq> key) (re_cache w))
                 | None \<Rightarrow>
                     (Pattern key,
                      if 512 \<le> length (re_cache w) then tl (re_cache w) else re_cache w));
              c2 = (if 256 \<le> length (re_cache2 w) then tl (re_cache2 w) else re_cache2 w)
          in (p, \<lparr>re_cache = c @ [(key, p)], re_cache2 = c2 @ [(key, p)]\<rparr>))"

definition re_sub :: "regex \<Rightarrow> pystr \<Rightarrow> interp \<Rightarrow> pystr \<times> interp" where
  "re_sub key s w = (let (p, w') = re_compile key w in (pattern_sub p s, w'))"

definition re_search :: "regex \<Rightarrow> pystr \<Rightarrow> interp \<Rightarrow> pystr option \<times> interp" where
  "re_search key s w = (let (p, w') = re_compile key w in (pattern_search p s, w'))"

text \<open>
  \<open>parse_json\<close> with that state passed through its calls, statement by statement. The
  search runs in the handler only.
\<close>

definition parse_json_run :: "pystr \<Rightarrow> interp \<Rightarrow> (error + json) \<times> interp" where
  "parse_json_run text0 w0 =
     (let (text1, w1) = re_sub FENCE_JSON_RE (strip text0) w0;
          (text2, w2) = re_sub FENCE_RE text1 w1;
          text = strip text2;
          start = start_index text
      in case json_loads (drop start text) of
           Inr v \<Rightarrow> (Inr v, w2)
         | Inl e \<Rightarrow>
             (let (m, w3) = re_search BRACES_RE text w2
              in case m of
                   Some grp \<Rightarrow> (json_loads grp, w3)
                 | None \<Rightarrow> (Inr (JObj []), w3)))"

text \<open>
  What \<open>re\<close> keeps true of its tables: every entry holds the compiled object of its own
  key. The empty tables of a fresh interpreter are such.
\<close>

definition cache_ok :: "interp \<Rightarrow> bool" where
  "cache_ok w =
     (list_all (\<lambda>e. snd e = Pattern (fst e)) (re_cache w)
      \<and> list_all (\<lambda>e. snd e = Pattern (fst e)) (re_cache2 w))"

section \<open>Evaluation\<close>

lemmas eval_simps = scan_value.simps scan_key.simps scan_next.simps scanstring.simps
  json_loads_def parse_json_def scan_scalar_def match_number_def skip_ws_def is_ws_def
  strip_def isspace_def FENCE_def FENCE_JSON_def start_index_def search_braces_def
  is_digit_def scan_frac_def scan_exp_def int_of_digits_def dict_def backslash_def
  decode_uXXXX_def hexval_def

section \<open>Properties of the Text Recovery Parser\<close>

text \<open>
  C1. The specification says that \<open>parse_json\<close> never lets a parse exception reach its
  caller, and that a brace span which does not decode gives the empty object. The source
  decodes the span in the exception handler, outside the \<open>try\<close>: on the text
  \<open>{not json}\<close> the first decode fails, the span is the whole text, its decode fails
  too, and the \<open>JSONDecodeError\<close> leaves the function.
\<close>

theorem parse_json_undecodable_span_raises:
  \<open>parse_json (py ''{not json}'') = Inl JSONDecodeError\<close>
  by (simp add: eval_simps)

text \<open>
  C2. The specification says that two sibling top-level objects give the empty object.
  On \<open>{"a":1} {"b":2}\<close> the first decode fails on the extra data, the greedy span is
  the whole text again, and its decode raises: the parser picks neither object, but it
  does not return the empty object either.
\<close>

theorem parse_json_two_objects_raises:
  \<open>parse_json (py ''{"a":1} {"b":2}'') = Inl JSONDecodeError\<close>
  by (simp add: eval_simps)

section \<open>Properties of the orchestrator and of the routes\<close>

text \<open>
  C6. When the environment has no \<open>ANTHROPIC_API_KEY\<close>, or an empty one, \<open>plan\<close> fails
  at once with status 500 and a message that names the variable, and it has sent no call
  to the service.
\<close>

theorem plan_missing_credential:
  assumes "environ (py ''ANTHROPIC_API_KEY'') = None \<or> environ (py ''ANTHROPIC_API_KEY'') = Some []"
  shows "plan dumps repr environ llm message =
           (Inl (HTTPException 500 (Some (py ''ANTHROPIC_API_KEY environment variable not set''))),
            [])"
  using assms by (auto simp: plan_def)

theorem plan_missing_credential_witness:
  "(Map.empty :: pystr \<rightharpoonup> pystr) (py ''ANTHROPIC_API_KEY'') = None
   \<and> plan (\<lambda>v. []) (\<lambda>v. []) Map.empty (\<lambda>h r. Inr (py ''{}'')) (py ''3 day trip to Paris'') =
       (Inl (HTTPException 500 (Some (py ''ANTHROPIC_API_KEY environment variable not set''))),
        [])"
  using plan_missing_credential [of Map.empty "\<lambda>v. []" "\<lambda>v. []" "\<lambda>h r. Inr (py ''{}'')"
      "py ''3 day trip to Paris''"]
  by simp

text \<open>
  C9. The catch-all route answers every path that does not start with \<open>api/\<close> with the
  embedded page and status 200, and every path that starts with \<open>api/\<close> with status 404.
\<close>

theorem serve_catch_all:
  "(\<not> prefix (py ''api/'') path \<longrightarrow> serve path = Inr (HTMLResponse 200 HTML))
   \<and> (prefix (py ''api/'') path \<longrightarrow> serve path = Inl (HTTPException 404 None))"
  by (simp add: serve_def)

theorem serve_catch_all_witness:
  "\<not> prefix (py ''api/'') (py ''anything'')
   \<and> serve (py ''anything'') = Inr (HTMLResponse 200 HTML)
   \<and> prefix (py ''api/'') (py ''api/unknown-route'')
   \<and> serve (py ''api/unknown-route'') = Inl (HTTPException 404 None)"
  using serve_catch_all [of "py ''anything''"] serve_catch_all [of "py ''api/unknown-route''"]
  by simp

lemma parse_json_stages: "parse_json t = decode_stages (fence_stripped t)"
  by (simp add: parse_json_def decode_stages_def fence_stripped_def Let_def)


lemma fence_head_kept:
  "\<not> prefix FENCE (d # u) \<Longrightarrow> re_sub_del FENCE (d # u) = d # re_sub_del FENCE u"
  by simp






lemma set_strip: "set (strip s) \<subseteq> set s"
proof -
  have "set (strip s) \<subseteq> set (dropWhile isspace s)"
    unfolding strip_def using set_dropWhileD by fastforce
  then show ?thesis using set_dropWhileD by fastforce
qed

lemma set_re_sub_del: "set (re_sub_del lit s) \<subseteq> set s"
proof (induction lit s rule: re_sub_del.induct)
  case (1 lit)
  then show ?case by simp
next
  case (2 lit c cs)
  show ?case
  proof (cases "lit \<noteq> [] \<and> prefix lit (c # cs)")
    case True
    have "set (dropWhile isspace (drop (length lit) (c # cs))) \<subseteq> set (c # cs)"
      by (meson set_dropWhileD in_set_dropD subsetI)
    with True 2 show ?thesis by auto
  next
    case False
    with 2 show ?thesis by auto
  qed
qed

lemma set_fence_stripped: "set (fence_stripped t) \<subseteq> set t"
  unfolding fence_stripped_def
  using set_strip set_re_sub_del by (meson subset_trans)

lemma start_index_none:
  "LBRACE \<notin> set s \<Longrightarrow> LBRACKET \<notin> set s \<Longrightarrow> start_index s = 0"
  by (auto simp: start_index_def list_ex_iff)

lemma search_braces_none: "LBRACE \<notin> set s \<Longrightarrow> search_braces s = None"
proof -
  assume "LBRACE \<notin> set s"
  then have d: "dropWhile (\<lambda>c. c \<noteq> LBRACE) s = []" by auto
  show ?thesis unfolding search_braces_def d by simp
qed

lemma match_number_scalar: "match_number s = Some (v, r) \<Longrightarrow> is_scalar v"
  by (auto simp: match_number_def Let_def is_scalar_def split: list.splits if_splits prod.splits)

lemma scan_scalar_scalar: "scan_scalar s = Some (v, r) \<Longrightarrow> is_scalar v"
  by (auto simp: scan_scalar_def is_scalar_def split: list.splits if_splits option.splits
      dest: match_number_scalar)

lemma json_loads_scalar:
  assumes "json_loads s = Inr v" "LBRACE \<notin> set s" "LBRACKET \<notin> set s"
  shows "is_scalar v"
proof -
  from assms(1) obtain r where sv: "scan_value [] (skip_ws s) = Some (v, r)"
    by (auto simp: json_loads_def split: if_splits option.splits)
  have "set (skip_ws s) \<subseteq> set s"
    unfolding skip_ws_def using set_dropWhileD by fastforce
  with assms have nb: "LBRACE \<notin> set (skip_ws s)" "LBRACKET \<notin> set (skip_ws s)" by auto
  from sv nb show ?thesis
    by (subst (asm) scan_value.simps)
      (auto simp: scan_next.simps split: list.splits option.splits if_splits
        dest: scan_scalar_scalar)
qed

text \<open>
  C3. The specification says that a text with no brace and no bracket gives the empty
  object. The source decodes the whole text when it has neither, so a text that is
  itself a JSON document comes back as its value, which is then a scalar: \<open>123\<close> gives
  the number. Every other such text, the empty one among them, gives the empty object,
  and none raises.
\<close>

theorem parse_json_scalar_counterexample:
  \<open>LBRACE \<notin> set (py ''123'') \<and> LBRACKET \<notin> set (py ''123'')
   \<and> parse_json (py ''123'') = Inr (JInt 123)
   \<and> parse_json (py ''123'') \<noteq> Inr (JObj [])\<close>
  by (simp add: eval_simps)

theorem parse_json_no_brace_or_bracket:
  assumes "LBRACE \<notin> set t" and "LBRACKET \<notin> set t"
  shows "parse_json t =
           (case json_loads (fence_stripped t) of Inr v \<Rightarrow> Inr v | Inl e \<Rightarrow> Inr (JObj []))
         \<and> (\<forall>v. json_loads (fence_stripped t) = Inr v \<longrightarrow> is_scalar v)
         \<and> parse_json [] = Inr (JObj [])"
proof -
  from assms set_fence_stripped [of t]
  have nb: "LBRACE \<notin> set (fence_stripped t)" "LBRACKET \<notin> set (fence_stripped t)"
    by auto
  have "parse_json t =
      (case json_loads (fence_stripped t) of Inr v \<Rightarrow> Inr v | Inl e \<Rightarrow> Inr (JObj []))"
    using nb by (simp add: parse_json_stages decode_stages_def start_index_none
        search_braces_none split: sum.splits)
  moreover have "\<forall>v. json_loads (fence_stripped t) = Inr v \<longrightarrow> is_scalar v"
    using nb json_loads_scalar by blast
  moreover have "parse_json [] = Inr (JObj [])"
    by (simp add: eval_simps)
  ultimately show ?thesis by simp
qed

theorem parse_json_no_brace_or_bracket_witness:
  \<open>LBRACE \<notin> set (py ''Sorry, no plan today.'') \<and> LBRACKET \<notin> set (py ''Sorry, no plan today.'')
   \<and> parse_json (py ''Sorry, no plan today.'') = Inr (JObj [])
   \<and> parse_json [] = Inr (JObj [])\<close>
proof -
  have fs: \<open>json_loads (fence_stripped (py ''Sorry, no plan today.'')) = Inl JSONDecodeError\<close>
    by (simp add: fence_stripped_def eval_simps)
  have nb: \<open>LBRACE \<notin> set (py ''Sorry, no plan today.'')\<close>
    \<open>LBRACKET \<notin> set (py ''Sorry, no plan today.'')\<close>
    by simp_all
  from parse_json_no_brace_or_bracket [OF nb] fs nb show ?thesis by simp
qed








lemma map_of_cache_ok:
  "list_all (\<lambda>e. snd e = Pattern (fst e)) c \<Longrightarrow> map_of c key = Some p \<Longrightarrow> p = Pattern key"
  by (induction c) (auto split: if_splits)

lemma list_all_tl: "list_all P xs \<Longrightarrow> list_all P (tl xs)"
  by (cases xs) auto

lemma list_all_filter: "list_all P xs \<Longrightarrow> list_all P (filter Q xs)"
  by (induction xs) auto

lemma re_compile_ok:
  assumes "cache_ok w"
  shows "fst (re_compile key w) = Pattern key" and "cache_ok (snd (re_compile key w))"
  using assms
  by (auto simp: re_compile_def cache_ok_def Let_def list_all_tl list_all_filter
      split: option.splits dest: map_of_cache_ok)

lemma re_sub_ok:
  assumes "cache_ok w"
  shows "fst (re_sub key s w) = pattern_sub (Pattern key) s" and "cache_ok (snd (re_sub key s w))"
  using re_compile_ok [OF assms, of key]
  by (simp_all add: re_sub_def split_beta)

lemma re_search_ok:
  assumes "cache_ok w"
  shows "fst (re_search key s w) = pattern_search (Pattern key) s"
    and "cache_ok (snd (re_search key s w))"
  using re_compile_ok [OF assms, of key]
  by (simp_all add: re_search_def split_beta)

lemma parse_json_run_ok:
  assumes "cache_ok w"
  shows "fst (parse_json_run t w) = parse_json t" and "cache_ok (snd (parse_json_run t w))"
proof -
  let ?r1 = "re_sub FENCE_JSON_RE (strip t) w"
  let ?r2 = "re_sub FENCE_RE (fst ?r1) (snd ?r1)"
  let ?text = "strip (fst ?r2)"
  let ?r3 = "re_search BRACES_RE ?text (snd ?r2)"
  have ok1: "cache_ok (snd ?r1)" and t1: "fst ?r1 = re_sub_del FENCE_JSON (strip t)"
    using re_sub_ok [OF assms, of FENCE_JSON_RE "strip t"] by (simp_all add: pattern_sub_def)
  have ok2: "cache_ok (snd ?r2)" and t2: "fst ?r2 = re_sub_del FENCE (fst ?r1)"
    using re_sub_ok [OF ok1, of FENCE_RE "fst ?r1"] by (simp_all add: pattern_sub_def)
  have ok3: "cache_ok (snd ?r3)" and t3: "fst ?r3 = search_braces ?text"
    using re_search_ok [OF ok2, of BRACES_RE ?text] by (simp_all add: pattern_search_def)
  have run: "parse_json_run t w =
      (case json_loads (drop (start_index ?text) ?text) of
         Inr v \<Rightarrow> (Inr v, snd ?r2)
       | Inl e \<Rightarrow>
           (case fst ?r3 of
              Some grp \<Rightarrow> (json_loads grp, snd ?r3)
            | None \<Rightarrow> (Inr (JObj []), snd ?r3)))"
    by (simp add: parse_json_run_def Let_def split_beta split: sum.splits)
  show "fst (parse_json_run t w) = parse_json t"
    using t1 t2 t3 by (simp add: run parse_json_def Let_def split: sum.splits option.splits)
  show "cache_ok (snd (parse_json_run t w))"
    unfolding run using ok2 ok3 by (simp split: sum.splits option.splits)
qed

text \<open>
  C8. Run in any state of the interpreter that \<open>re\<close> can have produced, \<open>parse_json\<close>
  gives the outcome that its text alone determines: two runs from two such states agree,
  a second run from the state the first one left agrees with the first, and the state
  left is again one that \<open>re\<close> can have produced. The state itself does change: the first
  run fills the tables.
\<close>

theorem parse_json_deterministic:
  assumes "cache_ok w" and "cache_ok w'"
  shows "fst (parse_json_run t w) = fst (parse_json_run t w')
       \<and> fst (parse_json_run t (snd (parse_json_run t w))) = fst (parse_json_run t w)
       \<and> fst (parse_json_run t w) = parse_json t
       \<and> cache_ok (snd (parse_json_run t w))"
  using parse_json_run_ok [OF assms(1), of t] parse_json_run_ok [OF assms(2), of t]
    parse_json_run_ok [of "snd (parse_json_run t w)" t]
  by simp

theorem parse_json_deterministic_witness:
  \<open>cache_ok \<lparr>re_cache = [], re_cache2 = []\<rparr>
   \<and> cache_ok \<lparr>re_cache = [(BRACES_RE, Pattern BRACES_RE)], re_cache2 = []\<rparr>
   \<and> fst (parse_json_run (py ''{"a":1} ok'') \<lparr>re_cache = [], re_cache2 = []\<rparr>) =
       Inr (JObj [(py ''a'', JInt 1)])
   \<and> fst (parse_json_run (py ''{"a":1} ok'')
           \<lparr>re_cache = [(BRACES_RE, Pattern BRACES_RE)], re_cache2 = []\<rparr>) =
       Inr (JObj [(py ''a'', JInt 1)])
   \<and> fst (parse_json_run (py ''{"a":1} ok'')
           (snd (parse_json_run (py ''{"a":1} ok'') \<lparr>re_cache = [], re_cache2 = []\<rparr>))) =
       Inr (JObj [(py ''a'', JInt 1)])
   \<and> snd (parse_json_run (py ''{"a":1} ok'') \<lparr>re_cache = [], re_cache2 = []\<rparr>) =
       \<lparr>re_cache = [(FENCE_JSON_RE, Pattern FENCE_JSON_RE), (FENCE_RE, Pattern FENCE_RE),
                    (BRACES_RE, Pattern BRACES_RE)],
        re_cache2 = [(FENCE_JSON_RE, Pattern FENCE_JSON_RE), (FENCE_RE, Pattern FENCE_RE),
                     (BRACES_RE, Pattern BRACES_RE)]\<rparr>\<close>
proof -
  have ok: \<open>cache_ok \<lparr>re_cache = [], re_cache2 = []\<rparr>\<close>
    \<open>cache_ok \<lparr>re_cache = [(BRACES_RE, Pattern BRACES_RE)], re_cache2 = []\<rparr>\<close>
    by (simp_all add: cache_ok_def)
  have run: \<open>parse_json (py ''{"a":1} ok'') = Inr (JObj [(py ''a'', JInt 1)])\<close>
    by (simp add: eval_simps)
  have left: \<open>snd (parse_json_run (py ''{"a":1} ok'') \<lparr>re_cache = [], re_cache2 = []\<rparr>) =
       \<lparr>re_cache = [(FENCE_JSON_RE, Pattern FENCE_JSON_RE), (FENCE_RE, Pattern FENCE_RE),
                    (BRACES_RE, Pattern BRACES_RE)],
        re_cache2 = [(FENCE_JSON_RE, Pattern FENCE_JSON_RE), (FENCE_RE, Pattern FENCE_RE),
                     (BRACES_RE, Pattern BRACES_RE)]\<rparr>\<close>
    by (simp add: parse_json_run_def re_sub_def re_search_def re_compile_def pattern_sub_def
        pattern_search_def eval_simps)
  from parse_json_deterministic [OF ok, of \<open>py ''{"a":1} ok''\<close>] ok run left
  show ?thesis by auto
qed




end
